theory Spec2Isabelle
  imports Main
begin

text \<open>
  The access-control gate and the appointment handlers of the booking backend:
  \<open>lib/permissions\<close>, \<open>middlewares\<close>, \<open>controllers/appointmentsController\<close> and
  \<open>routes/appointments\<close>. Handlers are functions from a request and the state of the
  store to a response and the new state; what the validation library, the engine and the
  hosted database decide is either written out (the formats of \<open>z.uuid\<close> and
  \<open>z.iso.time\<close>, the engine's \<open>Date\<close> of a bare time of day, the row operations of the
  store) or a parameter (\<open>env\<close>).
\<close>

section \<open>Values that cross the HTTP boundary\<close>

text \<open>
  A field of a JSON request body as the handlers see it. A key that is absent reads as
  \<open>JUndefined\<close>. Numbers are kept as integers (the handlers only test them for
  truthiness); \<open>JArr\<close> stands for any array and \<open>JObj\<close> for any other object (both
  always truthy).
\<close>

datatype json = JUndefined | JNull | JBool bool | JNum int | JStr string | JArr | JObj

fun truthy :: "json \<Rightarrow> bool" where
  "truthy JUndefined = False"
| "truthy JNull = False"
| "truthy (JBool b) = b"
| "truthy (JNum n) = (n \<noteq> 0)"
| "truthy (JStr s) = (s \<noteq> [])"
| "truthy JArr = True"
| "truthy JObj = True"

text \<open>
  \<open>String.prototype.split\<close> with a non-empty separator (both call sites pass a
  literal): the pieces between the occurrences of the separator, scanning from the left.
\<close>

function js_split_from :: "string \<Rightarrow> string \<Rightarrow> string \<Rightarrow> string list" where
  "js_split_from sep acc [] = [rev acc]"
| "js_split_from sep acc (c # cs) =
     (if sep \<noteq> [] \<and> take (length sep) (c # cs) = sep
      then rev acc # js_split_from sep [] (drop (length sep) (c # cs))
      else js_split_from sep (c # acc) cs)"
  by pat_completeness auto
termination
  by (relation "measure (\<lambda>(sep, acc, s). length s)") (auto simp: Suc_le_eq)

definition js_split :: "string \<Rightarrow> string \<Rightarrow> string list" where
  "js_split s sep = js_split_from sep [] s"

text \<open>\<open>xs[i]\<close> on a JavaScript array: \<open>undefined\<close> out of range.\<close>

definition js_index :: "'a list \<Rightarrow> nat \<Rightarrow> 'a option" where
  "js_index xs i = (if i < length xs then Some (xs ! i) else None)"

text \<open>\<open>Array.prototype.join\<close>.\<close>

fun js_join :: "string list \<Rightarrow> string \<Rightarrow> string" where
  "js_join [] sep = []"
| "js_join [x] sep = x"
| "js_join (x # y # ys) sep = x @ sep @ js_join (y # ys) sep"

section \<open>The appointments table and the storage collaborator\<close>

datatype AppointmentStatus = Pending | Confirmed | Cancelled | Completed

record Appointment =
  a_id :: string
  a_business_id :: string
  a_service_id :: string
  a_user_id :: "string option"
  a_staff_user_id :: "string option"
  a_business_customer_id :: "string option"
  a_start_time :: string
  a_end_time :: string
  a_status :: AppointmentStatus
  a_created_at :: string
  a_updated_at :: string

definition status_of_string :: "string \<Rightarrow> AppointmentStatus option" where
  "status_of_string s =
     (if s = ''pending'' then Some Pending
      else if s = ''confirmed'' then Some Confirmed
      else if s = ''cancelled'' then Some Cancelled
      else if s = ''completed'' then Some Completed
      else None)"

text \<open>
  The tables the appointment handlers query. \<open>services\<close> and \<open>business_customers\<close>
  hold pairs \<open>(id, business_id)\<close>; the other columns of those tables are never read.
  Identifiers are compared as the strings they are.
\<close>

record db =
  businesses :: "string list"
  services :: "(string \<times> string) list"
  profiles :: "string list"
  business_customers :: "(string \<times> string) list"
  appointments :: "Appointment list"

datatype table = T_businesses | T_services | T_profiles | T_business_customers | T_appointments

datatype pg_error = PgError (code: string) (message: string)

definition PGRST116 :: pg_error where
  "PGRST116 = PgError ''PGRST116'' ''Cannot coerce the result to a single JSON object''"

definition invalid_input :: pg_error where
  "invalid_input = PgError ''22P02'' ''invalid input syntax''"

definition not_null_violation :: pg_error where
  "not_null_violation = PgError ''23502'' ''null value violates not-null constraint''"

definition unique_violation :: pg_error where
  "unique_violation = PgError ''23505'' ''duplicate key value violates unique constraint''"

text \<open>The user of a session, as far as the middlewares read it.\<close>

record User =
  uid :: string
  role :: "string option"

text \<open>
  What the handlers cannot decide themselves:
  \<^item> \<open>Date_other\<close>: the engine's \<open>Date\<close> constructor on a string that is not a bare
    time of day, in milliseconds; \<open>None\<close> is an invalid date. (On a bare time of day see
    \<open>Date_parse\<close>.)
  \<^item> \<open>z_datetime\<close>: the format check of the validation library's \<open>datetime()\<close>.
  \<^item> \<open>getSession\<close>: the identity collaborator; \<open>None\<close> is an error, otherwise the
    user of the session.
  \<^item> \<open>fault\<close>: an error the storage collaborator reports on a query of a table for
    reasons outside this model (network, constraints of the schema).
  \<^item> \<open>new_id\<close> and \<open>now\<close>: the identifier the database gives a new row, and the clock.
\<close>

record env =
  Date_other :: "string \<Rightarrow> int option"
  z_datetime :: "string \<Rightarrow> bool"
  getSession :: "string \<Rightarrow> User option"
  fault :: "table \<Rightarrow> pg_error option"
  new_id :: string
  now :: string

text \<open>\<open>.single()\<close>: exactly one row, otherwise the error \<open>PGRST116\<close>.\<close>

definition single :: "pg_error option \<Rightarrow> 'a list \<Rightarrow> pg_error + 'a" where
  "single flt rows =
     (case flt of
        Some e \<Rightarrow> Inl e
      | None \<Rightarrow> (case rows of [r] \<Rightarrow> Inr r | _ \<Rightarrow> Inl PGRST116))"

text \<open>
  The object given to \<open>insert\<close> or \<open>update\<close>, by column; \<open>JUndefined\<close> is a key that
  is not sent. The store keeps the strings it is given: it accepts a string in a text,
  uuid or timestamp column, \<open>null\<close> in a nullable one and one of the four status names in
  \<open>status\<close>, and reports an error on anything else. Any further check of the database is
  among the faults.
\<close>

record AppointmentFields =
  f_service_id :: json
  f_user_id :: json
  f_staff_user_id :: json
  f_business_id :: json
  f_business_customer_id :: json
  f_start_time :: json
  f_end_time :: json
  f_status :: json
  f_updated_at :: json

definition no_fields :: AppointmentFields where
  "no_fields =
     \<lparr>f_service_id = JUndefined, f_user_id = JUndefined, f_staff_user_id = JUndefined,
      f_business_id = JUndefined, f_business_customer_id = JUndefined,
      f_start_time = JUndefined, f_end_time = JUndefined, f_status = JUndefined,
      f_updated_at = JUndefined\<rparr>"

fun col_ok :: "json \<Rightarrow> bool" where
  "col_ok JUndefined = True"
| "col_ok (JStr s) = True"
| "col_ok v = False"

fun col_ok_nullable :: "json \<Rightarrow> bool" where
  "col_ok_nullable JUndefined = True"
| "col_ok_nullable JNull = True"
| "col_ok_nullable (JStr s) = True"
| "col_ok_nullable v = False"

fun col_ok_status :: "json \<Rightarrow> bool" where
  "col_ok_status JUndefined = True"
| "col_ok_status (JStr s) = (status_of_string s \<noteq> None)"
| "col_ok_status v = False"

definition fields_ok :: "AppointmentFields \<Rightarrow> bool" where
  "fields_ok f \<longleftrightarrow>
     col_ok (f_service_id f) \<and> col_ok_nullable (f_user_id f) \<and>
     col_ok_nullable (f_staff_user_id f) \<and> col_ok (f_business_id f) \<and>
     col_ok_nullable (f_business_customer_id f) \<and> col_ok (f_start_time f) \<and>
     col_ok (f_end_time f) \<and> col_ok_status (f_status f) \<and> col_ok (f_updated_at f)"

fun set_col :: "json \<Rightarrow> string \<Rightarrow> string" where
  "set_col (JStr s) old = s"
| "set_col v old = old"

fun set_col_nullable :: "json \<Rightarrow> string option \<Rightarrow> string option" where
  "set_col_nullable (JStr s) old = Some s"
| "set_col_nullable JNull old = None"
| "set_col_nullable v old = old"

fun set_col_status :: "json \<Rightarrow> AppointmentStatus \<Rightarrow> AppointmentStatus" where
  "set_col_status (JStr s) old = (case status_of_string s of Some st \<Rightarrow> st | None \<Rightarrow> old)"
| "set_col_status v old = old"

definition apply_fields :: "AppointmentFields \<Rightarrow> Appointment \<Rightarrow> Appointment" where
  "apply_fields f a =
     a\<lparr>a_business_id := set_col (f_business_id f) (a_business_id a),
       a_service_id := set_col (f_service_id f) (a_service_id a),
       a_user_id := set_col_nullable (f_user_id f) (a_user_id a),
       a_staff_user_id := set_col_nullable (f_staff_user_id f) (a_staff_user_id a),
       a_business_customer_id := set_col_nullable (f_business_customer_id f) (a_business_customer_id a),
       a_start_time := set_col (f_start_time f) (a_start_time a),
       a_end_time := set_col (f_end_time f) (a_end_time a),
       a_status := set_col_status (f_status f) (a_status a),
       a_updated_at := set_col (f_updated_at f) (a_updated_at a)\<rparr>"

text \<open>
  \<open>from('appointments').update(fields).eq('id', id).select().single()\<close>. More than one
  matching row makes \<open>single\<close> fail and the request is rolled back.
\<close>

definition update_single ::
  "pg_error option \<Rightarrow> AppointmentFields \<Rightarrow> string \<Rightarrow> db \<Rightarrow> (pg_error + Appointment) \<times> db" where
  "update_single flt f ident d =
     (case flt of
        Some e \<Rightarrow> (Inl e, d)
      | None \<Rightarrow>
          if \<not> fields_ok f then (Inl invalid_input, d)
          else (case filter (\<lambda>a. a_id a = ident) (appointments d) of
                  [a] \<Rightarrow>
                    (Inr (apply_fields f a),
                     d\<lparr>appointments :=
                         map (\<lambda>a. if a_id a = ident then apply_fields f a else a) (appointments d)\<rparr>)
                | _ \<Rightarrow> (Inl PGRST116, d)))"

text \<open>
  \<open>from('appointments').insert([payload]).select().single()\<close>: the database supplies the
  identifier and both timestamps of the new row; an absent nullable column is \<open>null\<close>.
\<close>

definition insert_single ::
  "env \<Rightarrow> AppointmentFields \<Rightarrow> db \<Rightarrow> (pg_error + Appointment) \<times> db" where
  "insert_single e f d =
     (case fault e T_appointments of
        Some err \<Rightarrow> (Inl err, d)
      | None \<Rightarrow>
          if \<not> fields_ok f then (Inl invalid_input, d)
          else (case (f_business_id f, f_service_id f, f_start_time f, f_end_time f, f_status f) of
                  (JStr b, JStr s, JStr st, JStr en, JStr stat) \<Rightarrow>
                    if new_id e \<in> a_id ` set (appointments d) then (Inl unique_violation, d)
                    else
                      (let row = apply_fields f
                             \<lparr>a_id = new_id e, a_business_id = b, a_service_id = s,
                              a_user_id = None, a_staff_user_id = None,
                              a_business_customer_id = None, a_start_time = st,
                              a_end_time = en, a_status = Pending,
                              a_created_at = now e, a_updated_at = now e\<rparr>
                       in (Inr row, d\<lparr>appointments := appointments d @ [row]\<rparr>))
                | _ \<Rightarrow> (Inl not_null_violation, d)))"

text \<open>\<open>from('appointments').delete().eq('id', id)\<close>: no row matching is not an error.\<close>

definition delete_eq ::
  "pg_error option \<Rightarrow> string \<Rightarrow> db \<Rightarrow> pg_error option \<times> db" where
  "delete_eq flt ident d =
     (case flt of
        Some e \<Rightarrow> (Some e, d)
      | None \<Rightarrow> (None, d\<lparr>appointments := filter (\<lambda>a. a_id a \<noteq> ident) (appointments d)\<rparr>))"

datatype response_body =
    ErrorBody string
  | ErrorsBody "string list"
  | DataBody Appointment
  | NoBody

section \<open>lib/permissions\<close>

datatype Resource =
    R_business
  | R_user
  | R_waitlist_entry
  | R_review
  | R_service_group
  | R_admin_user
  | R_appointment
  | R_product_order_item
  | R_product_order
  | R_product
  | R_staff_recurring_availability
  | R_staff_service_assignment

datatype Action = A_create | A_delete | A_update | A_view

type_synonym PermissionsMap = "Resource \<Rightarrow> Action list option"

definition ALL_RESOURCES :: "Resource list" where
  "ALL_RESOURCES =
     [R_business, R_user, R_waitlist_entry, R_review, R_service_group, R_admin_user,
      R_appointment, R_product_order_item, R_product_order, R_product,
      R_staff_recurring_availability, R_staff_service_assignment]"

definition ALL_ACTIONS :: "Action list" where
  "ALL_ACTIONS = [A_create, A_delete, A_update, A_view]"

text \<open>The loop \<open>for (const resource of ALL_RESOURCES) permissionStatements[resource] = ALL_ACTIONS\<close>.\<close>

definition permissionStatements :: PermissionsMap where
  "permissionStatements = foldl (\<lambda>m resource. m(resource \<mapsto> ALL_ACTIONS)) Map.empty ALL_RESOURCES"

definition businessOwnerPermissions :: PermissionsMap where
  "businessOwnerPermissions = map_of
     [(R_business, [A_view, A_create, A_update, A_delete]),
      (R_user, [A_update, A_view, A_create]),
      (R_waitlist_entry, [A_view, A_create, A_update, A_delete]),
      (R_review, [A_view]),
      (R_service_group, [A_view, A_create, A_update, A_delete]),
      (R_appointment, [A_view, A_create, A_update, A_delete]),
      (R_product_order_item, [A_view, A_create, A_update, A_delete]),
      (R_product_order, [A_view, A_create, A_update, A_delete]),
      (R_product, [A_view, A_create, A_update, A_delete]),
      (R_staff_recurring_availability, [A_view, A_create, A_update, A_delete]),
      (R_staff_service_assignment, [A_view, A_create, A_update, A_delete])]"

definition businessStaffPermissions :: PermissionsMap where
  "businessStaffPermissions = map_of
     [(R_user, [A_update, A_view, A_create]),
      (R_business, [A_view, A_update]),
      (R_product, [A_view, A_create, A_update, A_delete]),
      (R_product_order_item, [A_view, A_delete]),
      (R_product_order, [A_view, A_delete]),
      (R_staff_recurring_availability, [A_view, A_create, A_update, A_delete]),
      (R_staff_service_assignment, [A_view, A_create, A_update, A_delete])]"

definition customerPermissions :: PermissionsMap where
  "customerPermissions = map_of
     [(R_business, [A_view]),
      (R_appointment, [A_view, A_create, A_delete, A_update]),
      (R_review, [A_view, A_create, A_update, A_delete]),
      (R_product_order_item, [A_view, A_create, A_update, A_delete]),
      (R_product_order, [A_view, A_create, A_update, A_delete]),
      (R_product, [A_view]),
      (R_user, [A_update, A_view, A_create])]"

text \<open>
  The own properties of the object literal \<open>ALL_PERMISSIONS\<close>, and the names it inherits
  from \<open>Object.prototype\<close>. The middleware indexes the object with a role string taken
  from the session, so an inherited name also reads as a (truthy) value; indexing that
  value with a resource tag gives \<open>undefined\<close>, which is the empty permission map here.
\<close>

definition ALL_PERMISSIONS_own :: "(string \<times> PermissionsMap) list" where
  "ALL_PERMISSIONS_own =
     [(''admin'', permissionStatements),
      (''businessOwner'', businessOwnerPermissions),
      (''businessStaff'', businessStaffPermissions),
      (''customer'', customerPermissions)]"

definition Object_prototype_names :: "string list" where
  "Object_prototype_names =
     [''constructor'', ''__defineGetter__'', ''__defineSetter__'', ''hasOwnProperty'',
      ''__lookupGetter__'', ''__lookupSetter__'', ''isPrototypeOf'', ''propertyIsEnumerable'',
      ''toString'', ''valueOf'', ''__proto__'', ''toLocaleString'']"

definition ALL_PERMISSIONS :: "string \<Rightarrow> PermissionsMap option" where
  "ALL_PERMISSIONS r =
     (case map_of ALL_PERMISSIONS_own r of
        Some permissionsForRole \<Rightarrow> Some permissionsForRole
      | None \<Rightarrow> if r \<in> set Object_prototype_names then Some Map.empty else None)"

text \<open>
  The spec's reading of a grant, to compare the loop of the middleware with: the role has
  a permission map, the map contains the resource, and the action is in its action set.
\<close>

definition spec_role_grants :: "string \<Rightarrow> Resource \<Rightarrow> Action \<Rightarrow> bool" where
  "spec_role_grants r resource action \<longleftrightarrow>
     (case ALL_PERMISSIONS r of
        None \<Rightarrow> False
      | Some permissionsForRole \<Rightarrow>
          (case permissionsForRole resource of
             None \<Rightarrow> False
           | Some allowed \<Rightarrow> action \<in> set allowed))"

section \<open>middlewares\<close>

text \<open>
  A request as the middlewares and handlers read it: the \<open>Authorization\<close> header, the
  path parameters, the parsed JSON body (by key) and \<open>req.user\<close>, which \<open>getUser\<close> sets.
\<close>

record Request =
  authorization :: "string option"
  params :: "string \<Rightarrow> string"
  body :: "string \<Rightarrow> json"
  user :: "User option"

record Response =
  status :: nat
  payload :: response_body

datatype 'a step = Next 'a | Done Response

definition respond :: "nat \<Rightarrow> response_body \<Rightarrow> Response" where
  "respond c b = \<lparr>status = c, payload = b\<rparr>"

definition getUser :: "env \<Rightarrow> Request \<Rightarrow> Request step" where
  "getUser e req =
     (case (case authorization req of
              None \<Rightarrow> None
            | Some h \<Rightarrow> js_index (js_split h ''Bearer '') 1) of
        None \<Rightarrow> Done (respond 401 (ErrorBody ''Unauthorized''))
      | Some token \<Rightarrow>
          if token = [] then Done (respond 401 (ErrorBody ''Unauthorized''))
          else (case getSession e token of
                  None \<Rightarrow> Done (respond 401 (ErrorBody ''Unauthorized''))
                | Some u \<Rightarrow> Next (req\<lparr>user := Some u\<rparr>)))"

definition checkForUser :: "env \<Rightarrow> Request \<Rightarrow> Request step" where
  "checkForUser e req =
     (case getUser e req of
        Done r \<Rightarrow> Done r
      | Next req' \<Rightarrow> Next req')"

text \<open>The loop over \<open>userRoles\<close> with its \<open>break\<close>; the result is \<open>hasPermission\<close>.\<close>

fun hasPermission :: "string list \<Rightarrow> Resource \<Rightarrow> Action \<Rightarrow> bool" where
  "hasPermission [] resource action = False"
| "hasPermission (r # userRoles) resource action =
     (case ALL_PERMISSIONS r of
        None \<Rightarrow> hasPermission userRoles resource action
      | Some permissionsForRole \<Rightarrow>
          (case permissionsForRole resource of
             None \<Rightarrow> hasPermission userRoles resource action
           | Some allowedActionsForResource \<Rightarrow>
               if action \<in> set allowedActionsForResource then True
               else hasPermission userRoles resource action))"

definition not_authorized :: Response where
  "not_authorized = respond 403 (ErrorsBody [''You are not authorized to do this''])"

text \<open>
  \<open>canAccessResource(resource, action)\<close>. After \<open>getUser\<close> has succeeded \<open>req.user\<close> is
  the user of the session, so the first \<open>None\<close> branch below is never taken.
\<close>

definition canAccessResource :: "Resource \<Rightarrow> Action \<Rightarrow> env \<Rightarrow> Request \<Rightarrow> Request step" where
  "canAccessResource resource action e req =
     (case getUser e req of
        Done r \<Rightarrow> Done r
      | Next req' \<Rightarrow>
          (case user req' of
             None \<Rightarrow> Done not_authorized
           | Some u \<Rightarrow>
               (case role u of
                  None \<Rightarrow> Done not_authorized
                | Some roles \<Rightarrow>
                    if roles = [] then Done not_authorized
                    else if hasPermission (js_split roles '','') resource action
                    then Next req'
                    else Done not_authorized)))"

text \<open>
  A route \<open>router.METHOD(path, middleware..., handler)\<close>: each middleware either ends the
  request with a response or calls \<open>next\<close>; the handler runs only after all of them did.
\<close>

datatype middleware = CheckForUser | CanAccessResource Resource Action

fun run_middleware :: "env \<Rightarrow> middleware \<Rightarrow> Request \<Rightarrow> Request step" where
  "run_middleware e CheckForUser req = checkForUser e req"
| "run_middleware e (CanAccessResource resource action) req = canAccessResource resource action e req"

fun run_chain ::
  "env \<Rightarrow> middleware list \<Rightarrow> (Request \<Rightarrow> 's \<Rightarrow> Response \<times> 's) \<Rightarrow> Request \<Rightarrow> 's \<Rightarrow> Response \<times> 's" where
  "run_chain e [] handler req s = handler req s"
| "run_chain e (m # ms) handler req s =
     (case run_middleware e m req of
        Done r \<Rightarrow> (r, s)
      | Next req' \<Rightarrow> run_chain e ms handler req' s)"

section \<open>The validation library\<close>

text \<open>
  An issue of a failed parse: its message, and whether checks that follow still run
  (a format failure of a string lets them run, a failure of the type does not).
\<close>

datatype issue = Issue (issue_message: string) (continue: bool)

definition aborted :: "issue list \<Rightarrow> bool" where
  "aborted issues = list_ex (\<lambda>i. \<not> continue i) issues"

definition is_digit :: "char \<Rightarrow> bool" where
  "is_digit c \<longleftrightarrow> c \<in> set ''0123456789''"

definition is_hex :: "char \<Rightarrow> bool" where
  "is_hex c \<longleftrightarrow> c \<in> set ''0123456789abcdefABCDEF''"

text \<open>
  \<open>z.uuid()\<close>: the pattern
  \<^verbatim>\<open>[0-9a-fA-F]{8}-[0-9a-fA-F]{4}-[1-8][0-9a-fA-F]{3}-[89abAB][0-9a-fA-F]{3}-[0-9a-fA-F]{12}\<close>,
  the nil identifier or the max identifier. In the template \<open>h\<close> is a hexadecimal digit,
  \<open>v\<close> the version digit and \<open>r\<close> the variant digit.
\<close>

definition uuid_class :: "char \<Rightarrow> char \<Rightarrow> bool" where
  "uuid_class t c =
     (if t = CHR ''h'' then is_hex c
      else if t = CHR ''v'' then c \<in> set ''12345678''
      else if t = CHR ''r'' then c \<in> set ''89abAB''
      else c = t)"

definition z_uuid :: "string \<Rightarrow> bool" where
  "z_uuid s \<longleftrightarrow>
     list_all2 uuid_class ''hhhhhhhh-hhhh-vhhh-rhhh-hhhhhhhhhhhh'' s \<or>
     s = ''00000000-0000-0000-0000-000000000000'' \<or>
     s = ''ffffffff-ffff-ffff-ffff-ffffffffffff''"

text \<open>
  \<open>z.iso.time()\<close>: a time of day and nothing else, the pattern
  \<^verbatim>\<open>^(?:[01]\d|2[0-3]):[0-5]\d(?::[0-5]\d(?:\.\d+)?)?$\<close>;
  no date, no \<open>Z\<close> and no offset.
\<close>

definition iso_seconds :: "string \<Rightarrow> bool" where
  "iso_seconds rest =
     (case rest of
        c # s1 # s2 # frac \<Rightarrow>
          c = CHR '':'' \<and> s1 \<in> set ''012345'' \<and> is_digit s2 \<and>
          (frac = [] \<or>
           (case frac of
              dot # ds \<Rightarrow> dot = CHR ''.'' \<and> ds \<noteq> [] \<and> list_all is_digit ds
            | [] \<Rightarrow> False))
      | _ \<Rightarrow> False)"

definition z_iso_time :: "string \<Rightarrow> bool" where
  "z_iso_time s =
     (case s of
        h1 # h2 # c # m1 # m2 # rest \<Rightarrow>
          ((h1 \<in> set ''01'' \<and> is_digit h2) \<or> (h1 = CHR ''2'' \<and> h2 \<in> set ''0123'')) \<and>
          c = CHR '':'' \<and> m1 \<in> set ''012345'' \<and> is_digit m2 \<and>
          (rest = [] \<or> iso_seconds rest)
      | _ \<Rightarrow> False)"

text \<open>A string format schema created with a message of its own, such as \<open>z.uuid({message})\<close>.\<close>

definition string_format :: "(string \<Rightarrow> bool) \<Rightarrow> string \<Rightarrow> json \<Rightarrow> issue list" where
  "string_format pattern msg v =
     (case v of
        JStr s \<Rightarrow> if pattern s then [] else [Issue msg True]
      | _ \<Rightarrow> [Issue msg False])"

text \<open>The name the library gives the type of a value in its own messages.\<close>

fun received :: "json \<Rightarrow> string" where
  "received JUndefined = ''undefined''"
| "received JNull = ''null''"
| "received (JBool b) = ''boolean''"
| "received (JNum n) = ''number''"
| "received (JStr s) = ''string''"
| "received JArr = ''array''"
| "received JObj = ''object''"

text \<open>\<open>z.string().uuid({message})\<close> and the like: the message belongs to the format check only.\<close>

definition string_then :: "(string \<Rightarrow> bool) \<Rightarrow> string \<Rightarrow> json \<Rightarrow> issue list" where
  "string_then pattern msg v =
     (case v of
        JStr s \<Rightarrow> if pattern s then [] else [Issue msg True]
      | _ \<Rightarrow> [Issue (''Invalid input: expected string, received '' @ received v) False])"

definition optional :: "(json \<Rightarrow> issue list) \<Rightarrow> json \<Rightarrow> issue list" where
  "optional schema v = (if v = JUndefined then [] else schema v)"

definition nullable :: "(json \<Rightarrow> issue list) \<Rightarrow> json \<Rightarrow> issue list" where
  "nullable schema v = (if v = JNull then [] else schema v)"

fun the_string :: "json \<Rightarrow> string" where
  "the_string (JStr s) = s"
| "the_string v = []"

text \<open>
  \<open>new Date(s)\<close>, in milliseconds. ECMAScript fixes the result only on its own date-time
  format, in which a date always comes first; a bare time of day, which is what
  \<open>z.iso.time()\<close> accepts, is no date for the engine of Node, and the result is an invalid
  date (\<open>None\<close>).
\<close>

definition Date_parse :: "env \<Rightarrow> string \<Rightarrow> int option" where
  "Date_parse e s = (if z_iso_time s then None else Date_other e s)"

text \<open>\<open>new Date(a) > new Date(b)\<close>: false as soon as one of the two is an invalid date.\<close>

definition date_gt :: "env \<Rightarrow> string \<Rightarrow> string \<Rightarrow> bool" where
  "date_gt e a b =
     (case (Date_parse e a, Date_parse e b) of
        (Some x, Some y) \<Rightarrow> x > y
      | _ \<Rightarrow> False)"

section \<open>controllers/appointmentsController\<close>

definition AppointmentStatusSchema :: "json \<Rightarrow> issue list" where
  "AppointmentStatusSchema v =
     (case v of
        JStr s \<Rightarrow>
          if status_of_string s \<noteq> None then []
          else [Issue ''Status must be one of 'pending', 'confirmed', 'cancelled', 'completed'.'' False]
      | _ \<Rightarrow> [Issue ''Status must be one of 'pending', 'confirmed', 'cancelled', 'completed'.'' False])"

record CreateAppointmentData =
  d_service_id :: string
  d_user_id :: json
  d_staff_user_id :: json
  d_business_customer_id :: json
  d_start_time :: string
  d_end_time :: string
  d_status :: string

definition CreateAppointmentSchema_fields :: "(string \<Rightarrow> json) \<Rightarrow> issue list" where
  "CreateAppointmentSchema_fields b =
     string_format z_uuid ''Service ID must be a valid UUID.'' (b ''service_id'') @
     optional (nullable (string_format z_uuid ''User ID must be a valid UUID.'')) (b ''user_id'') @
     optional (nullable (string_format z_uuid ''Staff User ID must be a valid UUID.''))
       (b ''staff_user_id'') @
     optional (nullable (string_format z_uuid ''Business Customer ID must be a valid UUID.''))
       (b ''business_customer_id'') @
     string_format z_iso_time ''Start time must be a valid ISO 8601 datetime string.''
       (b ''start_time'') @
     string_format z_iso_time ''End time must be a valid ISO 8601 datetime string.''
       (b ''end_time'') @
     optional AppointmentStatusSchema (b ''status'')"

definition CreateAppointmentSchema_data :: "(string \<Rightarrow> json) \<Rightarrow> CreateAppointmentData" where
  "CreateAppointmentSchema_data b =
     \<lparr>d_service_id = the_string (b ''service_id''),
      d_user_id = b ''user_id'',
      d_staff_user_id = b ''staff_user_id'',
      d_business_customer_id = b ''business_customer_id'',
      d_start_time = the_string (b ''start_time''),
      d_end_time = the_string (b ''end_time''),
      d_status = (if b ''status'' = JUndefined then ''pending'' else the_string (b ''status''))\<rparr>"

text \<open>
  \<open>CreateAppointmentSchema.safeParse\<close>: the fields in the order of the schema, then the
  two refinements, which run unless a field has failed on its type.
\<close>

definition CreateAppointmentSchema_safeParse ::
  "env \<Rightarrow> (string \<Rightarrow> json) \<Rightarrow> issue list + CreateAppointmentData" where
  "CreateAppointmentSchema_safeParse e b =
     (let issues = CreateAppointmentSchema_fields b in
      if aborted issues then Inl issues
      else
        (let data = CreateAppointmentSchema_data b;
             issues1 = issues @
               (if d_user_id data \<noteq> JNull \<or> d_business_customer_id data \<noteq> JNull then []
                else [Issue ''Either 'user_id' or 'business_customer_id' must be non-null.'' True]);
             issues2 = issues1 @
               (if date_gt e (d_end_time data) (d_start_time data) then []
                else [Issue ''End time must be strictly greater than start time.'' True])
         in if issues2 = [] then Inr data else Inl issues2))"

text \<open>The four lookups of \<open>createAppointment\<close>, each ended by \<open>.single()\<close>.\<close>

definition select_business :: "env \<Rightarrow> db \<Rightarrow> string \<Rightarrow> pg_error + string" where
  "select_business e d businessId =
     single (fault e T_businesses) (filter (\<lambda>b. b = businessId) (businesses d))"

definition select_service :: "env \<Rightarrow> db \<Rightarrow> string \<Rightarrow> string \<Rightarrow> pg_error + string \<times> string" where
  "select_service e d service_id businessId =
     single (fault e T_services)
       (filter (\<lambda>(sid, bid). sid = service_id \<and> bid = businessId) (services d))"

definition select_profile :: "env \<Rightarrow> db \<Rightarrow> json \<Rightarrow> pg_error + string" where
  "select_profile e d user_id =
     single (fault e T_profiles) (filter (\<lambda>p. JStr p = user_id) (profiles d))"

definition select_business_customer ::
  "env \<Rightarrow> db \<Rightarrow> json \<Rightarrow> string \<Rightarrow> pg_error + string \<times> string" where
  "select_business_customer e d business_customer_id businessId =
     single (fault e T_business_customers)
       (filter (\<lambda>(cid, bid). JStr cid = business_customer_id \<and> bid = businessId)
          (business_customers d))"

text \<open>The object \<open>payload\<close> that \<open>createAppointment\<close> inserts.\<close>

definition create_payload :: "string \<Rightarrow> CreateAppointmentData \<Rightarrow> AppointmentFields" where
  "create_payload businessId data =
     no_fields
       \<lparr>f_service_id := JStr (d_service_id data),
        f_user_id := d_user_id data,
        f_staff_user_id := d_staff_user_id data,
        f_business_id := JStr businessId,
        f_business_customer_id := d_business_customer_id data,
        f_start_time := JStr (d_start_time data),
        f_end_time := JStr (d_end_time data),
        f_status := JStr (d_status data)\<rparr>"

definition createAppointment :: "env \<Rightarrow> Request \<Rightarrow> db \<Rightarrow> Response \<times> db" where
  "createAppointment e req d =
     (let businessId = params req ''businessId'' in
      case CreateAppointmentSchema_safeParse e (body req) of
        Inl issues \<Rightarrow> (respond 400 (ErrorBody (js_join (map issue_message issues) ''. '')), d)
      | Inr data \<Rightarrow>
          if isl (select_business e d businessId)
          then (respond 404 (ErrorBody ''Business not found.''), d)
          else if isl (select_service e d (d_service_id data) businessId)
          then (respond 400
                  (ErrorBody ''Service not found or does not belong to this business.''), d)
          else if truthy (d_user_id data) \<and> isl (select_profile e d (d_user_id data))
          then (respond 400 (ErrorBody ''User profile not found.''), d)
          else if truthy (d_business_customer_id data) \<and>
                  isl (select_business_customer e d (d_business_customer_id data) businessId)
          then (respond 400
                  (ErrorBody ''Business-customer not found or does not belong to this business.''),
                d)
          else
            (let payload = create_payload businessId data
             in case insert_single e payload d of
                  (Inl error, d') \<Rightarrow> (respond 400 (ErrorBody (message error)), d')
                | (Inr appointment, d') \<Rightarrow> (respond 201 (DataBody appointment), d')))"

definition UpdateAppointmentSchema_fields :: "env \<Rightarrow> (string \<Rightarrow> json) \<Rightarrow> issue list" where
  "UpdateAppointmentSchema_fields e b =
     optional (string_then z_uuid ''Service ID must be a valid UUID.'') (b ''service_id'') @
     optional (nullable (string_then z_uuid ''User ID must be a valid UUID.'')) (b ''user_id'') @
     optional (nullable (string_then z_uuid ''Staff User ID must be a valid UUID.''))
       (b ''staff_user_id'') @
     optional (nullable (string_then z_uuid ''Business Customer ID must be a valid UUID.''))
       (b ''business_customer_id'') @
     optional (string_then (z_datetime e) ''Start time must be a valid ISO 8601 datetime string.'')
       (b ''start_time'') @
     optional (string_then (z_datetime e) ''End time must be a valid ISO 8601 datetime string.'')
       (b ''end_time'') @
     optional AppointmentStatusSchema (b ''status'')"

definition UpdateAppointmentSchema_safeParse ::
  "env \<Rightarrow> (string \<Rightarrow> json) \<Rightarrow> issue list + AppointmentFields" where
  "UpdateAppointmentSchema_safeParse e b =
     (let issues = UpdateAppointmentSchema_fields e b in
      if aborted issues then Inl issues
      else
        (let issues1 = issues @
               (if b ''user_id'' \<noteq> JUndefined \<and> b ''business_customer_id'' \<noteq> JUndefined \<and>
                   \<not> (b ''user_id'' \<noteq> JNull \<or> b ''business_customer_id'' \<noteq> JNull)
                then [Issue ''If updating both, either 'user_id' or 'business_customer_id' must be non-null.'' True]
                else []);
             issues2 = issues1 @
               (if b ''start_time'' \<noteq> JUndefined \<and> b ''end_time'' \<noteq> JUndefined \<and>
                   \<not> date_gt e (the_string (b ''end_time'')) (the_string (b ''start_time''))
                then [Issue ''End time must be strictly greater than start time if both are provided for update.'' True]
                else [])
         in if issues2 = [] then
              Inr (no_fields
                    \<lparr>f_service_id := b ''service_id'',
                     f_user_id := b ''user_id'',
                     f_staff_user_id := b ''staff_user_id'',
                     f_business_customer_id := b ''business_customer_id'',
                     f_start_time := b ''start_time'',
                     f_end_time := b ''end_time'',
                     f_status := b ''status''\<rparr>)
            else Inl issues2))"

text \<open>
  \<open>updateAppointment\<close>. The collaborator reports its errors in its result, so the
  \<open>catch\<close> branch of the source (500) has no counterpart here.
\<close>

definition updateAppointment :: "env \<Rightarrow> Request \<Rightarrow> db \<Rightarrow> Response \<times> db" where
  "updateAppointment e req d =
     (let ident = params req ''id'' in
      case UpdateAppointmentSchema_safeParse e (body req) of
        Inl issues \<Rightarrow> (respond 400 (ErrorBody (js_join (map issue_message issues) ''. '')), d)
      | Inr updates \<Rightarrow>
          (case update_single (fault e T_appointments)
                  (updates\<lparr>f_updated_at := JStr (now e)\<rparr>) ident d of
             (Inl error, d') \<Rightarrow>
               if code error = ''PGRST116''
               then (respond 404 (ErrorBody ''Appointment not found.''), d')
               else (respond 400 (ErrorBody (message error)), d')
           | (Inr appointment, d') \<Rightarrow> (respond 200 (DataBody appointment), d')))"

definition deleteAppointment :: "env \<Rightarrow> Request \<Rightarrow> db \<Rightarrow> Response \<times> db" where
  "deleteAppointment e req d =
     (let ident = params req ''id'' in
      case delete_eq (fault e T_appointments) ident d of
        (Some error, d') \<Rightarrow> (respond 500 (ErrorBody (message error)), d')
      | (None, d') \<Rightarrow> (respond 204 NoBody, d'))"

text \<open>
  The \<open>switch (action)\<close> of \<open>updateAppointmentStatus\<close>: the object to write, or the
  response of a branch that returns.
\<close>

definition status_updateData :: "(string \<Rightarrow> json) \<Rightarrow> Response + AppointmentFields" where
  "status_updateData b =
     (let action = b ''action'' in
      if action = JStr ''approve'' then Inr (no_fields\<lparr>f_status := JStr ''confirmed''\<rparr>)
      else if action = JStr ''cancel'' then Inr (no_fields\<lparr>f_status := JStr ''cancelled''\<rparr>)
      else if action = JStr ''reschedule'' then
        (if \<not> truthy (b ''start_time'') \<or> \<not> truthy (b ''end_time'')
         then Inl (respond 400 (ErrorBody ''Missing start_time or end_time for reschedule''))
         else Inr (no_fields
                    \<lparr>f_start_time := b ''start_time'',
                     f_end_time := b ''end_time'',
                     f_status := JStr ''pending''\<rparr>))
      else Inl (respond 400
                 (ErrorBody ''Invalid action. Must be approve, cancel, or reschedule'')))"

definition updateAppointmentStatus :: "env \<Rightarrow> Request \<Rightarrow> db \<Rightarrow> Response \<times> db" where
  "updateAppointmentStatus e req d =
     (let ident = params req ''id'' in
      case status_updateData (body req) of
        Inl r \<Rightarrow> (r, d)
      | Inr updateData \<Rightarrow>
          (case update_single (fault e T_appointments)
                  (updateData\<lparr>f_updated_at := JStr (now e)\<rparr>) ident d of
             (Inl error, d') \<Rightarrow>
               if code error = ''PGRST116''
               then (respond 404 (ErrorBody ''Appointment not found''), d')
               else (respond 400 (ErrorBody (message error)), d')
           | (Inr data, d') \<Rightarrow> (respond 200 (DataBody data), d')))"

section \<open>routes/appointments\<close>

text \<open>
  The routes of the appointments router that change data, with their middlewares. (The
  router also has a listing route, registered without any middleware.)
\<close>

datatype http_method = POST | PUT | DELETE | PATCH

datatype endpoint =
  CreateAppointment | UpdateAppointment | DeleteAppointment | UpdateAppointmentStatus

definition appointment_routes :: "(http_method \<times> string \<times> middleware list \<times> endpoint) list" where
  "appointment_routes =
     [(POST, ''/businesses/:businessId/appointments'', [CheckForUser], CreateAppointment),
      (PUT, ''/appointments/:id'', [CheckForUser], UpdateAppointment),
      (DELETE, ''/appointments/:id'', [CheckForUser], DeleteAppointment),
      (PATCH, ''/appointments/:id/status'', [CheckForUser], UpdateAppointmentStatus)]"

fun handler_of :: "env \<Rightarrow> endpoint \<Rightarrow> Request \<Rightarrow> db \<Rightarrow> Response \<times> db" where
  "handler_of e CreateAppointment = createAppointment e"
| "handler_of e UpdateAppointment = updateAppointment e"
| "handler_of e DeleteAppointment = deleteAppointment e"
| "handler_of e UpdateAppointmentStatus = updateAppointmentStatus e"

definition run_route ::
  "env \<Rightarrow> http_method \<times> string \<times> middleware list \<times> endpoint \<Rightarrow> Request \<Rightarrow> db \<Rightarrow> Response \<times> db" where
  "run_route e route req d =
     (case route of (m, path, mws, ep) \<Rightarrow> run_chain e mws (handler_of e ep) req d)"

section \<open>Example data\<close>

definition id_B :: string where "id_B = ''b1111111-1111-4111-8111-111111111111''"
definition id_S :: string where "id_S = ''5e222222-2222-4222-8222-222222222222''"
definition id_C :: string where "id_C = ''c3333333-3333-4333-8333-333333333333''"
definition id_K :: string where "id_K = ''d4444444-4444-4444-8444-444444444444''"
definition id_A :: string where "id_A = ''a5555555-5555-4555-8555-555555555555''"
definition id_N :: string where "id_N = ''e6666666-6666-4666-8666-666666666666''"
definition id_O :: string where "id_O = ''0b777777-7777-4777-8777-777777777777''"

definition admin_user :: User where
  "admin_user = \<lparr>uid = ''u-admin'', role = Some ''admin''\<rparr>"

definition staff_user :: User where
  "staff_user = \<lparr>uid = ''u-staff'', role = Some ''businessStaff''\<rparr>"

definition staff_customer_user :: User where
  "staff_customer_user = \<lparr>uid = ''u-staff-customer'', role = Some ''businessStaff,customer''\<rparr>"

definition customer_staff_user :: User where
  "customer_staff_user = \<lparr>uid = ''u-customer-staff'', role = Some ''customer,businessStaff''\<rparr>"

text \<open>
  No example below hands \<open>Date\<close> a string other than a bare time of day or calls the
  \<open>datetime()\<close> check, so what the example environment answers there is never read.
\<close>

definition example_env :: env where
  "example_env =
     \<lparr>Date_other = (\<lambda>s. None),
      z_datetime = (\<lambda>s. False),
      getSession = (\<lambda>token. if token = ''token-admin'' then Some admin_user
                              else if token = ''token-staff'' then Some staff_user
                              else if token = ''token-staff-customer'' then Some staff_customer_user
                              else if token = ''token-customer-staff'' then Some customer_staff_user
                              else None),
      fault = (\<lambda>t. None),
      new_id = id_N,
      now = ''2024-03-01T09:00:00.000Z''\<rparr>"

definition example_appointment :: Appointment where
  "example_appointment =
     \<lparr>a_id = id_A, a_business_id = id_B, a_service_id = id_S, a_user_id = Some id_C,
      a_staff_user_id = None, a_business_customer_id = None,
      a_start_time = ''2024-02-15T10:00:00+00:00'', a_end_time = ''2024-02-15T11:00:00+00:00'',
      a_status = Confirmed,
      a_created_at = ''2024-02-01T08:00:00+00:00'', a_updated_at = ''2024-02-01T08:00:00+00:00''\<rparr>"

definition example_db :: db where
  "example_db =
     \<lparr>businesses = [id_B], services = [(id_S, id_B)], profiles = [id_C],
      business_customers = [(id_K, id_B)], appointments = []\<rparr>"

definition booked_db :: db where
  "booked_db = example_db\<lparr>appointments := [example_appointment]\<rparr>"

text \<open>A booking of service \<open>id_S\<close> from ten to eleven, to which an example adds the other keys.\<close>

definition booking :: "(string \<times> json) list" where
  "booking =
     [(''service_id'', JStr id_S),
      (''start_time'', JStr ''10:00:00''), (''end_time'', JStr ''11:00:00'')]"

definition request :: "string option \<Rightarrow> (string \<times> string) list \<Rightarrow> (string \<times> json) list \<Rightarrow> Request" where
  "request auth ps b =
     \<lparr>authorization = auth,
      params = (\<lambda>k. case map_of ps k of Some v \<Rightarrow> v | None \<Rightarrow> []),
      body = (\<lambda>k. case map_of b k of Some v \<Rightarrow> v | None \<Rightarrow> JUndefined),
      user = None\<rparr>"

definition booking_request :: "(string \<times> json) list \<Rightarrow> Request" where
  "booking_request extra = request None [(''businessId'', id_B)] (booking @ extra)"

section \<open>Status names\<close>

lemma status_of_string_names [simp]:
  "status_of_string ''pending'' = Some Pending"
  "status_of_string ''confirmed'' = Some Confirmed"
  "status_of_string ''cancelled'' = Some Cancelled"
  "status_of_string ''completed'' = Some Completed"
  by (simp_all add: status_of_string_def)

section \<open>The permission engine\<close>

lemma hasPermission_iff:
  "hasPermission userRoles resource action \<longleftrightarrow>
     (\<exists>r \<in> set userRoles. spec_role_grants r resource action)"
  by (induction userRoles) (auto simp: spec_role_grants_def split: option.splits)

lemma staff_no_appointment: "\<not> spec_role_grants ''businessStaff'' R_appointment action"
  by (simp add: spec_role_grants_def ALL_PERMISSIONS_def ALL_PERMISSIONS_own_def
      businessStaffPermissions_def)

lemma customer_appointment: "spec_role_grants ''customer'' R_appointment action"
  by (cases action)
     (simp_all add: spec_role_grants_def ALL_PERMISSIONS_def ALL_PERMISSIONS_own_def
        customerPermissions_def)

lemma getUser_staff:
  "getUser example_env (request (Some ''Bearer token-staff'') ps b) =
     Next ((request (Some ''Bearer token-staff'') ps b)\<lparr>user := Some staff_user\<rparr>)"
  by (simp add: getUser_def request_def js_split_def js_index_def example_env_def)

lemma getUser_admin:
  "getUser example_env (request (Some ''Bearer token-admin'') ps b) =
     Next ((request (Some ''Bearer token-admin'') ps b)\<lparr>user := Some admin_user\<rparr>)"
  by (simp add: getUser_def request_def js_split_def js_index_def example_env_def)

text \<open>
  C3 (default deny). Once the caller is authenticated, if no role of the session's role
  string is granted the action on the resource by the permission table (in particular when
  the role, or the resource under that role, is absent from the table), the gate answers
  403 and the handler behind it does not run: the state it would act on is unchanged.
\<close>

theorem default_deny:
  assumes "getUser e req = Next req'"
      and "user req' = Some u"
      and "\<forall>roles. role u = Some roles \<longrightarrow>
             (\<forall>r \<in> set (js_split roles '',''). \<not> spec_role_grants r resource action)"
  shows "canAccessResource resource action e req = Done not_authorized \<and>
         status not_authorized = 403 \<and>
         run_chain e [CanAccessResource resource action] handler req s = (not_authorized, s)"
  using assms
  by (auto simp: canAccessResource_def hasPermission_iff not_authorized_def respond_def
      split: option.splits)

theorem default_deny_witness:
  "getUser example_env (request (Some ''Bearer token-staff'') [(''id'', id_A)] []) =
     Next ((request (Some ''Bearer token-staff'') [(''id'', id_A)] [])\<lparr>user := Some staff_user\<rparr>) \<and>
   role staff_user = Some ''businessStaff'' \<and>
   js_split ''businessStaff'' '','' = [''businessStaff''] \<and>
   \<not> spec_role_grants ''businessStaff'' R_appointment A_delete \<and>
   run_chain example_env [CanAccessResource R_appointment A_delete] (deleteAppointment example_env)
     (request (Some ''Bearer token-staff'') [(''id'', id_A)] []) booked_db =
     (not_authorized, booked_db) \<and>
   status not_authorized = 403"
proof -
  let ?req = "request (Some ''Bearer token-staff'') [(''id'', id_A)] []"
  have g: "getUser example_env ?req = Next (?req\<lparr>user := Some staff_user\<rparr>)"
    by (rule getUser_staff)
  have u: "user (?req\<lparr>user := Some staff_user\<rparr>) = Some staff_user" by simp
  have r: "role staff_user = Some ''businessStaff''" by (simp add: staff_user_def)
  have sp: "js_split ''businessStaff'' '','' = [''businessStaff'']" by (simp add: js_split_def)
  have n: "\<not> spec_role_grants ''businessStaff'' R_appointment A_delete"
    by (rule staff_no_appointment)
  have h: "\<forall>roles. role staff_user = Some roles \<longrightarrow>
             (\<forall>r \<in> set (js_split roles '',''). \<not> spec_role_grants r R_appointment A_delete)"
    using r sp n by simp
  from default_deny [OF g u h, of "deleteAppointment example_env" booked_db] g r sp n
  show ?thesis by simp
qed

lemma no_role_grants_nothing: "\<not> spec_role_grants [] resource action"
  by (simp add: spec_role_grants_def ALL_PERMISSIONS_def ALL_PERMISSIONS_own_def
      Object_prototype_names_def)

lemma gate_decides:
  assumes "getUser e req = Next req'" and "user req' = Some u" and "role u = Some roles"
  shows "canAccessResource resource action e req =
           (if \<exists>r \<in> set (js_split roles '',''). spec_role_grants r resource action
            then Next req' else Done not_authorized)"
proof (cases "roles = []")
  case True
  then have "js_split roles '','' = [[]]" by (simp add: js_split_def)
  with True assms show ?thesis
    by (simp add: canAccessResource_def no_role_grants_nothing)
next
  case False
  with assms show ?thesis
    by (simp add: canAccessResource_def hasPermission_iff)
qed

lemma getUser_staff_customer:
  "getUser example_env (request (Some ''Bearer token-staff-customer'') ps b) =
     Next ((request (Some ''Bearer token-staff-customer'') ps b)\<lparr>user := Some staff_customer_user\<rparr>)"
  by (simp add: getUser_def request_def js_split_def js_index_def example_env_def)

lemma getUser_customer_staff:
  "getUser example_env (request (Some ''Bearer token-customer-staff'') ps b) =
     Next ((request (Some ''Bearer token-customer-staff'') ps b)\<lparr>user := Some customer_staff_user\<rparr>)"
  by (simp add: getUser_def request_def js_split_def js_index_def example_env_def)

text \<open>
  C4 (union of roles). For an authenticated caller, the gate splits the role string of the
  session at the commas and lets the request through to the handler exactly when at least one
  of these roles has a permission map that contains the resource with the action in its
  action set; when none has, it answers 403 and the handler does not run. The loop gives the
  same result for any other listing of the same roles, so the order in which they are
  listed does not matter.
\<close>

theorem union_of_roles:
  assumes "getUser e req = Next req'" and "user req' = Some u" and "role u = Some roles"
  shows "canAccessResource resource action e req =
           (if \<exists>r \<in> set (js_split roles '',''). spec_role_grants r resource action
            then Next req' else Done not_authorized) \<and>
         run_chain e [CanAccessResource resource action] handler req s =
           (if \<exists>r \<in> set (js_split roles '',''). spec_role_grants r resource action
            then handler req' s else (not_authorized, s)) \<and>
         (hasPermission (js_split roles '','') resource action \<longleftrightarrow>
            (\<exists>r \<in> set (js_split roles '',''). spec_role_grants r resource action)) \<and>
         (\<forall>userRoles'. set userRoles' = set (js_split roles '','') \<longrightarrow>
            hasPermission userRoles' resource action =
            hasPermission (js_split roles '','') resource action)"
  using gate_decides [OF assms, of resource action]
  by (simp add: hasPermission_iff)

theorem union_of_roles_witness:
  "getUser example_env (request (Some ''Bearer token-staff-customer'') [(''id'', id_A)] []) =
     Next ((request (Some ''Bearer token-staff-customer'') [(''id'', id_A)] [])
             \<lparr>user := Some staff_customer_user\<rparr>) \<and>
   role staff_customer_user = Some ''businessStaff,customer'' \<and>
   js_split ''businessStaff,customer'' '','' = [''businessStaff'', ''customer''] \<and>
   \<not> spec_role_grants ''businessStaff'' R_appointment A_delete \<and>
   spec_role_grants ''customer'' R_appointment A_delete \<and>
   canAccessResource R_appointment A_delete example_env
     (request (Some ''Bearer token-staff-customer'') [(''id'', id_A)] []) =
     Next ((request (Some ''Bearer token-staff-customer'') [(''id'', id_A)] [])
             \<lparr>user := Some staff_customer_user\<rparr>) \<and>
   run_chain example_env [CanAccessResource R_appointment A_delete] (deleteAppointment example_env)
     (request (Some ''Bearer token-staff-customer'') [(''id'', id_A)] []) booked_db =
     (respond 204 NoBody, example_db) \<and>
   canAccessResource R_appointment A_delete example_env
     (request (Some ''Bearer token-customer-staff'') [(''id'', id_A)] []) =
     Next ((request (Some ''Bearer token-customer-staff'') [(''id'', id_A)] [])
             \<lparr>user := Some customer_staff_user\<rparr>) \<and>
   canAccessResource R_appointment A_delete example_env
     (request (Some ''Bearer token-staff'') [(''id'', id_A)] []) = Done not_authorized"
proof -
  let ?q1 = "request (Some ''Bearer token-staff-customer'') [(''id'', id_A)] []"
  let ?q2 = "request (Some ''Bearer token-customer-staff'') [(''id'', id_A)] []"
  let ?q3 = "request (Some ''Bearer token-staff'') [(''id'', id_A)] []"
  have g1: "getUser example_env ?q1 = Next (?q1\<lparr>user := Some staff_customer_user\<rparr>)"
    by (rule getUser_staff_customer)
  have g2: "getUser example_env ?q2 = Next (?q2\<lparr>user := Some customer_staff_user\<rparr>)"
    by (rule getUser_customer_staff)
  have g3: "getUser example_env ?q3 = Next (?q3\<lparr>user := Some staff_user\<rparr>)"
    by (rule getUser_staff)
  have u1: "user (?q1\<lparr>user := Some staff_customer_user\<rparr>) = Some staff_customer_user"
    and u2: "user (?q2\<lparr>user := Some customer_staff_user\<rparr>) = Some customer_staff_user"
    and u3: "user (?q3\<lparr>user := Some staff_user\<rparr>) = Some staff_user"
    by simp_all
  have r1: "role staff_customer_user = Some ''businessStaff,customer''"
    and r2: "role customer_staff_user = Some ''customer,businessStaff''"
    and r3: "role staff_user = Some ''businessStaff''"
    by (simp_all add: staff_customer_user_def customer_staff_user_def staff_user_def)
  have s1: "js_split ''businessStaff,customer'' '','' = [''businessStaff'', ''customer'']"
    and s2: "js_split ''customer,businessStaff'' '','' = [''customer'', ''businessStaff'']"
    and s3: "js_split ''businessStaff'' '','' = [''businessStaff'']"
    by (simp_all add: js_split_def)
  have n: "\<not> spec_role_grants ''businessStaff'' R_appointment A_delete"
    by (rule staff_no_appointment)
  have c: "spec_role_grants ''customer'' R_appointment A_delete"
    by (rule customer_appointment)
  have d: "deleteAppointment example_env (?q1\<lparr>user := Some staff_customer_user\<rparr>) booked_db =
      (respond 204 NoBody, example_db)"
    by (simp add: deleteAppointment_def delete_eq_def request_def example_env_def booked_db_def
        example_db_def example_appointment_def)
  note U1 = union_of_roles [OF g1 u1 r1, of R_appointment A_delete "deleteAppointment example_env"
      booked_db, unfolded s1]
  note U2 = union_of_roles [OF g2 u2 r2, of R_appointment A_delete "deleteAppointment example_env"
      booked_db, unfolded s2]
  note U3 = union_of_roles [OF g3 u3 r3, of R_appointment A_delete "deleteAppointment example_env"
      booked_db, unfolded s3]
  have a1: "canAccessResource R_appointment A_delete example_env ?q1 =
      Next (?q1\<lparr>user := Some staff_customer_user\<rparr>)"
    using U1 n c by simp
  have h1: "run_chain example_env [CanAccessResource R_appointment A_delete]
      (deleteAppointment example_env) ?q1 booked_db = (respond 204 NoBody, example_db)"
    using U1 n c d by (simp del: run_chain.simps)
  have a2: "canAccessResource R_appointment A_delete example_env ?q2 =
      Next (?q2\<lparr>user := Some customer_staff_user\<rparr>)"
    using U2 n c by simp
  have a3: "canAccessResource R_appointment A_delete example_env ?q3 = Done not_authorized"
    using U3 n by simp
  from g1 r1 s1 n c a1 h1 a2 a3 show ?thesis by blast
qed

section \<open>The appointment routes\<close>

lemma handler_of_reads:
  "params r1 = params r2 \<Longrightarrow> body r1 = body r2 \<Longrightarrow> handler_of e ep r1 d = handler_of e ep r2 d"
  by (cases ep)
     (simp_all add: createAppointment_def updateAppointment_def deleteAppointment_def
        updateAppointmentStatus_def)

lemma getUser_Next:
  "getUser e req = Next req' \<Longrightarrow> params req' = params req \<and> body req' = body req"
  by (auto simp: getUser_def split: option.splits if_splits)

text \<open>
  C9 (the permission table is never consulted for appointments). Every route of the
  appointments router that changes data has \<open>checkForUser\<close> as its only middleware, none has
  the permission gate; and for two authenticated requests with the same path parameters and
  body the route gives the same response and the same state, whoever the two callers are
  and whatever roles they hold.
\<close>

theorem appointment_routes_ignore_roles:
  assumes "route \<in> set appointment_routes"
      and "getUser e req1 = Next req1'" and "getUser e req2 = Next req2'"
      and "params req1 = params req2" and "body req1 = body req2"
  shows "(\<forall>resource action. CanAccessResource resource action \<notin> set (fst (snd (snd route)))) \<and>
         run_route e route req1 d = run_route e route req2 d"
proof -
  from assms(2,3) have p: "params req1' = params req1" "body req1' = body req1"
      "params req2' = params req2" "body req2' = body req2"
    by (auto dest: getUser_Next)
  with assms(4,5) have eq: "handler_of e ep req1' d = handler_of e ep req2' d" for ep
    by (intro handler_of_reads) simp_all
  from assms(1) obtain m path ep where route: "route = (m, path, [CheckForUser], ep)"
    by (auto simp: appointment_routes_def)
  have "run_route e route req1 d = handler_of e ep req1' d"
    using assms(2) by (simp add: route run_route_def checkForUser_def)
  moreover have "run_route e route req2 d = handler_of e ep req2' d"
    using assms(3) by (simp add: route run_route_def checkForUser_def)
  ultimately show ?thesis
    using eq [of ep] by (simp add: route)
qed

theorem appointment_routes_ignore_roles_witness:
  "(DELETE, ''/appointments/:id'', [CheckForUser], DeleteAppointment) \<in> set appointment_routes \<and>
   role admin_user \<noteq> role staff_user \<and>
   \<not> spec_role_grants ''businessStaff'' R_appointment A_delete \<and>
   run_route example_env (DELETE, ''/appointments/:id'', [CheckForUser], DeleteAppointment)
     (request (Some ''Bearer token-admin'') [(''id'', id_A)] []) booked_db =
   run_route example_env (DELETE, ''/appointments/:id'', [CheckForUser], DeleteAppointment)
     (request (Some ''Bearer token-staff'') [(''id'', id_A)] []) booked_db \<and>
   run_route example_env (DELETE, ''/appointments/:id'', [CheckForUser], DeleteAppointment)
     (request (Some ''Bearer token-staff'') [(''id'', id_A)] []) booked_db =
     (respond 204 NoBody, example_db)"
proof -
  let ?route = "(DELETE, ''/appointments/:id'', [CheckForUser], DeleteAppointment)"
  let ?ra = "request (Some ''Bearer token-admin'') [(''id'', id_A)] []"
  let ?rs = "request (Some ''Bearer token-staff'') [(''id'', id_A)] []"
  have m: "?route \<in> set appointment_routes" by (simp add: appointment_routes_def)
  have p: "params ?ra = params ?rs" "body ?ra = body ?rs" by (simp_all add: request_def)
  have r: "role admin_user \<noteq> role staff_user" by (simp add: admin_user_def staff_user_def)
  have "run_route example_env ?route ?rs booked_db =
          deleteAppointment example_env (?rs\<lparr>user := Some staff_user\<rparr>) booked_db"
    by (simp add: run_route_def checkForUser_def getUser_staff)
  also have "\<dots> = (respond 204 NoBody, example_db)"
    by (simp add: deleteAppointment_def delete_eq_def request_def example_env_def booked_db_def
        example_db_def example_appointment_def)
  finally have s: "run_route example_env ?route ?rs booked_db = (respond 204 NoBody, example_db)" .
  from appointment_routes_ignore_roles [OF m getUser_admin getUser_staff p, of booked_db]
    m r s staff_no_appointment [of A_delete]
  show ?thesis by blast
qed

section \<open>Deleting an appointment\<close>

lemma delete_unmatched:
  "ident \<notin> a_id ` set xs \<Longrightarrow> filter (\<lambda>a. a_id a \<noteq> ident) xs = xs"
  by (induction xs) auto

text \<open>
  C10 (delete has no not-found branch). \<open>deleteAppointment\<close> answers 204 unless the
  storage collaborator reports an error, and then 500; it never answers 404. In particular
  an identifier that matches no stored row gives 204 and leaves the table as it was.
\<close>

theorem delete_never_404:
  "status (fst (deleteAppointment e req d)) = (if fault e T_appointments = None then 204 else 500) \<and>
   status (fst (deleteAppointment e req d)) \<noteq> 404 \<and>
   (fault e T_appointments = None \<and> params req ''id'' \<notin> a_id ` set (appointments d) \<longrightarrow>
      deleteAppointment e req d = (respond 204 NoBody, d))"
  by (auto simp: deleteAppointment_def delete_eq_def respond_def delete_unmatched split: option.splits)

theorem delete_never_404_witness:
  "fault example_env T_appointments = None \<and>
   params (request None [(''id'', id_N)] []) ''id'' \<notin> a_id ` set (appointments booked_db) \<and>
   deleteAppointment example_env (request None [(''id'', id_N)] []) booked_db =
     (respond 204 NoBody, booked_db) \<and>
   status (fst (deleteAppointment (example_env\<lparr>fault := (\<lambda>t. Some (PgError ''08006'' ''connection failure''))\<rparr>)
      (request None [(''id'', id_A)] []) booked_db)) = 500"
proof -
  have f: "fault example_env T_appointments = None" by (simp add: example_env_def)
  have n: "params (request None [(''id'', id_N)] []) ''id'' \<notin> a_id ` set (appointments booked_db)"
    by (simp add: request_def booked_db_def example_db_def example_appointment_def id_N_def id_A_def)
  from delete_never_404 [of example_env "request None [(''id'', id_N)] []" booked_db] f n
  have 1: "deleteAppointment example_env (request None [(''id'', id_N)] []) booked_db =
     (respond 204 NoBody, booked_db)" by blast
  from delete_never_404 [of "example_env\<lparr>fault := (\<lambda>t. Some (PgError ''08006'' ''connection failure''))\<rparr>"
      "request None [(''id'', id_A)] []" booked_db]
  have 2: "status (fst (deleteAppointment (example_env\<lparr>fault := (\<lambda>t. Some (PgError ''08006'' ''connection failure''))\<rparr>)
      (request None [(''id'', id_A)] []) booked_db)) = 500" by simp
  from f n 1 2 show ?thesis by blast
qed

section \<open>Status actions\<close>

lemma update_single_hit:
  "fields_ok f \<Longrightarrow> filter (\<lambda>a. a_id a = ident) (appointments d) = [a] \<Longrightarrow>
   update_single None f ident d =
     (Inr (apply_fields f a),
      d\<lparr>appointments := map (\<lambda>x. if a_id x = ident then apply_fields f x else x) (appointments d)\<rparr>)"
  by (simp add: update_single_def)

lemma status_write:
  assumes "fault e T_appointments = None"
      and "filter (\<lambda>x. a_id x = params req ''id'') (appointments d) = [a]"
      and "status_updateData (body req) = Inr f" and "fields_ok (f\<lparr>f_updated_at := JStr (now e)\<rparr>)"
  shows "updateAppointmentStatus e req d =
     (respond 200 (DataBody (apply_fields (f\<lparr>f_updated_at := JStr (now e)\<rparr>) a)),
      d\<lparr>appointments := map (\<lambda>x. if a_id x = params req ''id''
                                  then apply_fields (f\<lparr>f_updated_at := JStr (now e)\<rparr>) x else x)
                            (appointments d)\<rparr>)"
  using assms by (simp add: updateAppointmentStatus_def update_single_hit)

lemma apply_status_only:
  "status_of_string s = Some st \<Longrightarrow>
   apply_fields (no_fields\<lparr>f_status := JStr s, f_updated_at := JStr t\<rparr>) x =
     x\<lparr>a_status := st, a_updated_at := t\<rparr>"
  by (simp add: apply_fields_def no_fields_def)

lemma apply_reschedule:
  "apply_fields (no_fields\<lparr>f_start_time := JStr st, f_end_time := JStr en,
       f_status := JStr ''pending'', f_updated_at := JStr t\<rparr>) x =
     x\<lparr>a_start_time := st, a_end_time := en, a_status := Pending, a_updated_at := t\<rparr>"
  by (simp add: apply_fields_def no_fields_def)

lemma status_only_ok:
  "status_of_string s \<noteq> None \<Longrightarrow> fields_ok (no_fields\<lparr>f_status := JStr s, f_updated_at := JStr t\<rparr>)"
  by (simp add: fields_ok_def no_fields_def)

lemma filter_after_map:
  "\<forall>x. a_id (g x) = a_id x \<Longrightarrow> filter (\<lambda>x. a_id x = ident) xs = [a] \<Longrightarrow>
   filter (\<lambda>x. a_id x = ident) (map (\<lambda>x. if a_id x = ident then g x else x) xs) = [g a]"
proof (induction xs arbitrary: a)
  case Nil
  then show ?case by simp
next
  case (Cons y ys)
  show ?case
  proof (cases "a_id y = ident")
    case True
    with Cons.prems(2) have ya: "y = a" and rest: "filter (\<lambda>x. a_id x = ident) ys = []" by simp_all
    from rest have "filter (\<lambda>x. a_id x = ident) (map (\<lambda>x. if a_id x = ident then g x else x) ys) = []"
      by (induction ys) (auto split: if_splits)
    with True ya Cons.prems(1) show ?thesis by simp
  next
    case False
    with Cons.prems(2) have "filter (\<lambda>x. a_id x = ident) ys = [a]" by simp
    from Cons.IH [OF Cons.prems(1) this] False show ?thesis by simp
  qed
qed

lemma booked_filter:
  "filter (\<lambda>x. a_id x = params (request auth [(''id'', id_A)] b) ''id'') (appointments booked_db) =
     [example_appointment]"
  by (simp add: request_def booked_db_def example_db_def example_appointment_def)

lemma example_no_fault: "fault example_env T_appointments = None"
  by (simp add: example_env_def)

text \<open>
  C6 as stated fails on the two message texts: the handler answers a \<open>reschedule\<close> without
  an end with "Missing start_time or end_time for reschedule", not with
  "missing start_time or end_time for reschedule", and an unknown action with
  "Invalid action. Must be approve, cancel, or reschedule", not with "invalid action".
\<close>

theorem status_messages_differ:
  "fst (updateAppointmentStatus example_env
     (request None [(''id'', id_A)]
        [(''action'', JStr ''reschedule''), (''start_time'', JStr ''2024-02-15T15:00:00Z'')])
     booked_db) =
     respond 400 (ErrorBody ''Missing start_time or end_time for reschedule'') \<and>
   payload (fst (updateAppointmentStatus example_env
     (request None [(''id'', id_A)]
        [(''action'', JStr ''reschedule''), (''start_time'', JStr ''2024-02-15T15:00:00Z'')])
     booked_db)) \<noteq> ErrorBody ''missing start_time or end_time for reschedule'' \<and>
   fst (updateAppointmentStatus example_env
     (request None [(''id'', id_A)] [(''action'', JStr ''complete'')]) booked_db) =
     respond 400 (ErrorBody ''Invalid action. Must be approve, cancel, or reschedule'') \<and>
   payload (fst (updateAppointmentStatus example_env
     (request None [(''id'', id_A)] [(''action'', JStr ''complete'')]) booked_db)) \<noteq>
     ErrorBody ''invalid action''"
  by (simp add: updateAppointmentStatus_def status_updateData_def request_def respond_def)

text \<open>
  C6, amended (reschedule and unknown actions). A \<open>reschedule\<close> whose \<open>start_time\<close> or
  \<open>end_time\<close> is missing is answered 400 with the message
  "Missing start_time or end_time for reschedule" and the store is unchanged. A
  \<open>reschedule\<close> with both timestamps, on a stored appointment and with no storage error,
  replaces the time window and sets the status to pending, whatever the status was. Any
  action other than approve, cancel and reschedule is answered 400 with the message
  "Invalid action. Must be approve, cancel, or reschedule" and the store is unchanged.
\<close>

theorem status_reschedule_and_invalid:
  "(body req ''action'' = JStr ''reschedule'' \<and>
      (\<not> truthy (body req ''start_time'') \<or> \<not> truthy (body req ''end_time'')) \<longrightarrow>
      updateAppointmentStatus e req d =
        (respond 400 (ErrorBody ''Missing start_time or end_time for reschedule''), d)) \<and>
   (body req ''action'' = JStr ''reschedule'' \<and>
      body req ''start_time'' = JStr st \<and> st \<noteq> [] \<and>
      body req ''end_time'' = JStr en \<and> en \<noteq> [] \<and>
      fault e T_appointments = None \<and>
      filter (\<lambda>x. a_id x = params req ''id'') (appointments d) = [a] \<longrightarrow>
      updateAppointmentStatus e req d =
        (respond 200 (DataBody (a\<lparr>a_start_time := st, a_end_time := en, a_status := Pending,
                                   a_updated_at := now e\<rparr>)),
         d\<lparr>appointments :=
             map (\<lambda>x. if a_id x = params req ''id''
                       then x\<lparr>a_start_time := st, a_end_time := en, a_status := Pending,
                              a_updated_at := now e\<rparr>
                       else x) (appointments d)\<rparr>)) \<and>
   (body req ''action'' \<notin> {JStr ''approve'', JStr ''cancel'', JStr ''reschedule''} \<longrightarrow>
      updateAppointmentStatus e req d =
        (respond 400 (ErrorBody ''Invalid action. Must be approve, cancel, or reschedule''), d))"
proof (intro conjI impI)
  assume "body req ''action'' = JStr ''reschedule'' \<and>
      (\<not> truthy (body req ''start_time'') \<or> \<not> truthy (body req ''end_time''))"
  then show "updateAppointmentStatus e req d =
        (respond 400 (ErrorBody ''Missing start_time or end_time for reschedule''), d)"
    by (auto simp: updateAppointmentStatus_def status_updateData_def)
next
  assume h: "body req ''action'' = JStr ''reschedule'' \<and>
      body req ''start_time'' = JStr st \<and> st \<noteq> [] \<and>
      body req ''end_time'' = JStr en \<and> en \<noteq> [] \<and>
      fault e T_appointments = None \<and>
      filter (\<lambda>x. a_id x = params req ''id'') (appointments d) = [a]"
  then have u: "status_updateData (body req) =
      Inr (no_fields\<lparr>f_start_time := JStr st, f_end_time := JStr en, f_status := JStr ''pending''\<rparr>)"
    by (simp add: status_updateData_def)
  have ok: "fields_ok (no_fields\<lparr>f_start_time := JStr st, f_end_time := JStr en,
      f_status := JStr ''pending'', f_updated_at := JStr (now e)\<rparr>)"
    by (simp add: fields_ok_def no_fields_def)
  from h status_write [OF _ _ u, of e d a] ok
  show "updateAppointmentStatus e req d =
        (respond 200 (DataBody (a\<lparr>a_start_time := st, a_end_time := en, a_status := Pending,
                                   a_updated_at := now e\<rparr>)),
         d\<lparr>appointments :=
             map (\<lambda>x. if a_id x = params req ''id''
                       then x\<lparr>a_start_time := st, a_end_time := en, a_status := Pending,
                              a_updated_at := now e\<rparr>
                       else x) (appointments d)\<rparr>)"
    by (simp add: apply_reschedule)
next
  assume "body req ''action'' \<notin> {JStr ''approve'', JStr ''cancel'', JStr ''reschedule''}"
  then show "updateAppointmentStatus e req d =
        (respond 400 (ErrorBody ''Invalid action. Must be approve, cancel, or reschedule''), d)"
    by (simp add: updateAppointmentStatus_def status_updateData_def)
qed

theorem status_reschedule_and_invalid_witness:
  "updateAppointmentStatus example_env
     (request None [(''id'', id_A)]
        [(''action'', JStr ''reschedule''), (''start_time'', JStr ''2024-02-15T15:00:00Z'')])
     booked_db =
     (respond 400 (ErrorBody ''Missing start_time or end_time for reschedule''), booked_db) \<and>
   a_status example_appointment = Confirmed \<and>
   updateAppointmentStatus example_env
     (request None [(''id'', id_A)]
        [(''action'', JStr ''reschedule''), (''start_time'', JStr ''2024-02-15T15:00:00Z''),
         (''end_time'', JStr ''2024-02-15T15:45:00Z'')])
     booked_db =
     (respond 200
        (DataBody (example_appointment
           \<lparr>a_start_time := ''2024-02-15T15:00:00Z'', a_end_time := ''2024-02-15T15:45:00Z'',
            a_status := Pending, a_updated_at := now example_env\<rparr>)),
      booked_db\<lparr>appointments :=
        [example_appointment
           \<lparr>a_start_time := ''2024-02-15T15:00:00Z'', a_end_time := ''2024-02-15T15:45:00Z'',
            a_status := Pending, a_updated_at := now example_env\<rparr>]\<rparr>) \<and>
   updateAppointmentStatus example_env
     (request None [(''id'', id_A)] [(''action'', JStr ''complete'')]) booked_db =
     (respond 400 (ErrorBody ''Invalid action. Must be approve, cancel, or reschedule''), booked_db)"
proof -
  let ?r1 = "request None [(''id'', id_A)]
        [(''action'', JStr ''reschedule''), (''start_time'', JStr ''2024-02-15T15:00:00Z'')]"
  let ?r2 = "request None [(''id'', id_A)]
        [(''action'', JStr ''reschedule''), (''start_time'', JStr ''2024-02-15T15:00:00Z''),
         (''end_time'', JStr ''2024-02-15T15:45:00Z'')]"
  let ?r3 = "request None [(''id'', id_A)] [(''action'', JStr ''complete'')]"
  have b1: "body ?r1 ''action'' = JStr ''reschedule''" "\<not> truthy (body ?r1 ''end_time'')"
    by (simp_all add: request_def)
  have b2: "body ?r2 ''action'' = JStr ''reschedule''"
      "body ?r2 ''start_time'' = JStr ''2024-02-15T15:00:00Z''"
      "body ?r2 ''end_time'' = JStr ''2024-02-15T15:45:00Z''"
    by (simp_all add: request_def)
  have b3: "body ?r3 ''action'' \<notin> {JStr ''approve'', JStr ''cancel'', JStr ''reschedule''}"
    by (simp add: request_def)
  have id2: "params ?r2 ''id'' = id_A" by (simp add: request_def)
  have m: "map (\<lambda>x. if a_id x = id_A then g x else x) (appointments booked_db) = [g example_appointment]" for g
    by (simp add: booked_db_def example_db_def example_appointment_def)
  have s: "a_status example_appointment = Confirmed" by (simp add: example_appointment_def)
  have 1: "updateAppointmentStatus example_env ?r1 booked_db =
     (respond 400 (ErrorBody ''Missing start_time or end_time for reschedule''), booked_db)"
    using status_reschedule_and_invalid [where req = ?r1 and e = example_env and d = booked_db] b1 by blast
  have 2: "updateAppointmentStatus example_env ?r2 booked_db =
     (respond 200
        (DataBody (example_appointment
           \<lparr>a_start_time := ''2024-02-15T15:00:00Z'', a_end_time := ''2024-02-15T15:45:00Z'',
            a_status := Pending, a_updated_at := now example_env\<rparr>)),
      booked_db\<lparr>appointments :=
        [example_appointment
           \<lparr>a_start_time := ''2024-02-15T15:00:00Z'', a_end_time := ''2024-02-15T15:45:00Z'',
            a_status := Pending, a_updated_at := now example_env\<rparr>]\<rparr>)"
    using status_reschedule_and_invalid [where req = ?r2 and st = "''2024-02-15T15:00:00Z''"
            and en = "''2024-02-15T15:45:00Z''" and e = example_env and d = booked_db
            and a = example_appointment]
          b2 example_no_fault booked_filter [of None "[(''action'', JStr ''reschedule''),
            (''start_time'', JStr ''2024-02-15T15:00:00Z''), (''end_time'', JStr ''2024-02-15T15:45:00Z'')]"]
    unfolding id2 m by simp
  have 3: "updateAppointmentStatus example_env ?r3 booked_db =
     (respond 400 (ErrorBody ''Invalid action. Must be approve, cancel, or reschedule''), booked_db)"
    using status_reschedule_and_invalid [where req = ?r3 and e = example_env and d = booked_db] b3 by blast
  from 1 s 2 3 show ?thesis by blast
qed

text \<open>
  C7 as stated fails: \<open>approve\<close> also writes \<open>updated_at\<close>. Approving the stored example
  appointment at a later time changes that column.
\<close>

theorem approve_changes_updated_at:
  "updateAppointmentStatus example_env (request None [(''id'', id_A)] [(''action'', JStr ''approve'')])
     booked_db =
     (respond 200 (DataBody (example_appointment\<lparr>a_updated_at := ''2024-03-01T09:00:00.000Z''\<rparr>)),
      example_db\<lparr>appointments := [example_appointment\<lparr>a_updated_at := ''2024-03-01T09:00:00.000Z''\<rparr>]\<rparr>) \<and>
   a_updated_at example_appointment = ''2024-02-01T08:00:00+00:00''"
  by (simp add: updateAppointmentStatus_def status_updateData_def update_single_def request_def
      example_env_def booked_db_def example_db_def example_appointment_def fields_ok_def
      no_fields_def apply_fields_def)

text \<open>
  C7, amended (frame of approve and cancel). On a stored appointment and with no storage
  error, \<open>approve\<close> sets the status to confirmed and \<open>updated_at\<close> to the current time and
  changes no other column and no other row; \<open>cancel\<close> does the same with cancelled. Nothing
  is required of the current status, and approving a second time succeeds again and leaves
  the status confirmed.
\<close>

theorem approve_cancel_frame:
  assumes "fault e T_appointments = None"
      and "filter (\<lambda>x. a_id x = params req ''id'') (appointments d) = [a]"
  shows "(body req ''action'' = JStr ''approve'' \<longrightarrow>
            updateAppointmentStatus e req d =
              (respond 200 (DataBody (a\<lparr>a_status := Confirmed, a_updated_at := now e\<rparr>)),
               d\<lparr>appointments :=
                   map (\<lambda>x. if a_id x = params req ''id''
                             then x\<lparr>a_status := Confirmed, a_updated_at := now e\<rparr> else x)
                     (appointments d)\<rparr>) \<and>
            (fault e' T_appointments = None \<longrightarrow>
               fst (updateAppointmentStatus e' req (snd (updateAppointmentStatus e req d))) =
                 respond 200 (DataBody (a\<lparr>a_status := Confirmed, a_updated_at := now e'\<rparr>)))) \<and>
         (body req ''action'' = JStr ''cancel'' \<longrightarrow>
            updateAppointmentStatus e req d =
              (respond 200 (DataBody (a\<lparr>a_status := Cancelled, a_updated_at := now e\<rparr>)),
               d\<lparr>appointments :=
                   map (\<lambda>x. if a_id x = params req ''id''
                             then x\<lparr>a_status := Cancelled, a_updated_at := now e\<rparr> else x)
                     (appointments d)\<rparr>))"
proof (intro conjI impI)
  assume act: "body req ''action'' = JStr ''approve''"
  then have u: "status_updateData (body req) = Inr (no_fields\<lparr>f_status := JStr ''confirmed''\<rparr>)"
    by (simp add: status_updateData_def)
  have ok: "fields_ok (no_fields\<lparr>f_status := JStr ''confirmed'', f_updated_at := JStr t\<rparr>)" for t
    by (simp add: status_only_ok)
  from status_write [OF assms u] ok
  show first: "updateAppointmentStatus e req d =
              (respond 200 (DataBody (a\<lparr>a_status := Confirmed, a_updated_at := now e\<rparr>)),
               d\<lparr>appointments :=
                   map (\<lambda>x. if a_id x = params req ''id''
                             then x\<lparr>a_status := Confirmed, a_updated_at := now e\<rparr> else x)
                     (appointments d)\<rparr>)"
    by (simp add: apply_status_only)
  assume f': "fault e' T_appointments = None"
  let ?d' = "snd (updateAppointmentStatus e req d)"
  have "filter (\<lambda>x. a_id x = params req ''id'') (appointments ?d') =
          [a\<lparr>a_status := Confirmed, a_updated_at := now e\<rparr>]"
    using filter_after_map [of "\<lambda>x. x\<lparr>a_status := Confirmed, a_updated_at := now e\<rparr>", OF _ assms(2)]
    by (simp add: first)
  from status_write [OF f' this u] ok
  show "fst (updateAppointmentStatus e' req ?d') =
          respond 200 (DataBody (a\<lparr>a_status := Confirmed, a_updated_at := now e'\<rparr>))"
    by (simp add: apply_status_only)
next
  assume act: "body req ''action'' = JStr ''cancel''"
  then have u: "status_updateData (body req) = Inr (no_fields\<lparr>f_status := JStr ''cancelled''\<rparr>)"
    by (simp add: status_updateData_def)
  have ok: "fields_ok (no_fields\<lparr>f_status := JStr ''cancelled'', f_updated_at := JStr (now e)\<rparr>)"
    by (simp add: status_only_ok)
  from status_write [OF assms u] ok
  show "updateAppointmentStatus e req d =
              (respond 200 (DataBody (a\<lparr>a_status := Cancelled, a_updated_at := now e\<rparr>)),
               d\<lparr>appointments :=
                   map (\<lambda>x. if a_id x = params req ''id''
                             then x\<lparr>a_status := Cancelled, a_updated_at := now e\<rparr> else x)
                     (appointments d)\<rparr>)"
    by (simp add: apply_status_only)
qed

theorem approve_cancel_frame_witness:
  "fault example_env T_appointments = None \<and>
   filter (\<lambda>x. a_id x = params (request None [(''id'', id_A)] [(''action'', JStr ''approve'')]) ''id'')
     (appointments booked_db) = [example_appointment] \<and>
   updateAppointmentStatus example_env (request None [(''id'', id_A)] [(''action'', JStr ''approve'')])
     booked_db =
     (respond 200 (DataBody (example_appointment\<lparr>a_status := Confirmed, a_updated_at := now example_env\<rparr>)),
      booked_db\<lparr>appointments := [example_appointment\<lparr>a_status := Confirmed, a_updated_at := now example_env\<rparr>]\<rparr>) \<and>
   fst (updateAppointmentStatus example_env (request None [(''id'', id_A)] [(''action'', JStr ''approve'')])
     (snd (updateAppointmentStatus example_env
        (request None [(''id'', id_A)] [(''action'', JStr ''approve'')]) booked_db))) =
     respond 200 (DataBody (example_appointment\<lparr>a_status := Confirmed, a_updated_at := now example_env\<rparr>)) \<and>
   updateAppointmentStatus example_env (request None [(''id'', id_A)] [(''action'', JStr ''cancel'')])
     booked_db =
     (respond 200 (DataBody (example_appointment\<lparr>a_status := Cancelled, a_updated_at := now example_env\<rparr>)),
      booked_db\<lparr>appointments := [example_appointment\<lparr>a_status := Cancelled, a_updated_at := now example_env\<rparr>]\<rparr>)"
proof -
  let ?ra = "request None [(''id'', id_A)] [(''action'', JStr ''approve'')]"
  let ?rc = "request None [(''id'', id_A)] [(''action'', JStr ''cancel'')]"
  have ba: "body ?ra ''action'' = JStr ''approve''" and bc: "body ?rc ''action'' = JStr ''cancel''"
    by (simp_all add: request_def)
  have ida: "params ?ra ''id'' = id_A" and idc: "params ?rc ''id'' = id_A"
    by (simp_all add: request_def)
  have m: "map (\<lambda>x. if a_id x = id_A then g x else x) (appointments booked_db) = [g example_appointment]" for g
    by (simp add: booked_db_def example_db_def example_appointment_def)
  note A = approve_cancel_frame [OF example_no_fault booked_filter,
             of None "[(''action'', JStr ''approve'')]" example_env]
  note C = approve_cancel_frame [OF example_no_fault booked_filter,
             of None "[(''action'', JStr ''cancel'')]" example_env]
  have a1: "updateAppointmentStatus example_env ?ra booked_db =
     (respond 200 (DataBody (example_appointment\<lparr>a_status := Confirmed, a_updated_at := now example_env\<rparr>)),
      booked_db\<lparr>appointments := [example_appointment\<lparr>a_status := Confirmed, a_updated_at := now example_env\<rparr>]\<rparr>)"
    using A ba unfolding ida m by blast
  have a2: "fst (updateAppointmentStatus example_env ?ra (snd (updateAppointmentStatus example_env ?ra booked_db))) =
     respond 200 (DataBody (example_appointment\<lparr>a_status := Confirmed, a_updated_at := now example_env\<rparr>))"
    using A ba example_no_fault by blast
  have c1: "updateAppointmentStatus example_env ?rc booked_db =
     (respond 200 (DataBody (example_appointment\<lparr>a_status := Cancelled, a_updated_at := now example_env\<rparr>)),
      booked_db\<lparr>appointments := [example_appointment\<lparr>a_status := Cancelled, a_updated_at := now example_env\<rparr>]\<rparr>)"
    using C bc unfolding idc m by blast
  from example_no_fault booked_filter [of None "[(''action'', JStr ''approve'')]"] a1 a2 c1
  show ?thesis by blast
qed

section \<open>Creating an appointment\<close>

lemma safeParse_field_issue:
  "CreateAppointmentSchema_fields b \<noteq> [] \<Longrightarrow> isl (CreateAppointmentSchema_safeParse e b)"
  by (simp add: CreateAppointmentSchema_safeParse_def Let_def)

lemma createAppointment_parse_failure:
  "isl (CreateAppointmentSchema_safeParse e (body req)) \<Longrightarrow>
   status (fst (createAppointment e req d)) = 400 \<and> snd (createAppointment e req d) = d"
  by (cases "CreateAppointmentSchema_safeParse e (body req)")
     (simp_all add: createAppointment_def respond_def)

lemma time_field_issue:
  "b ''start_time'' = JStr st \<Longrightarrow> \<not> z_iso_time st \<Longrightarrow> CreateAppointmentSchema_fields b \<noteq> []"
  by (simp add: CreateAppointmentSchema_fields_def string_format_def)

lemma scenario_not_time: "\<not> z_iso_time ''2024-02-15T10:00:00Z''"
  by (simp add: z_iso_time_def)

text \<open>
  C5 (end-to-end scenario 1). The body of the scenario carries the date-times
  "2024-02-15T10:00:00Z" and "2024-02-15T11:00:00Z". The schema checks \<open>start_time\<close> and
  \<open>end_time\<close> with the time-of-day format, which rejects them: whatever the store holds and
  whoever calls, \<open>createAppointment\<close> answers 400 and writes nothing, where the scenario
  expects 201.
\<close>

theorem scenario_1_rejected:
  "status (fst (createAppointment e
      (request auth [(''businessId'', B)]
         [(''service_id'', JStr S), (''user_id'', JStr C),
          (''start_time'', JStr ''2024-02-15T10:00:00Z''),
          (''end_time'', JStr ''2024-02-15T11:00:00Z'')]) d)) = 400 \<and>
   snd (createAppointment e
      (request auth [(''businessId'', B)]
         [(''service_id'', JStr S), (''user_id'', JStr C),
          (''start_time'', JStr ''2024-02-15T10:00:00Z''),
          (''end_time'', JStr ''2024-02-15T11:00:00Z'')]) d) = d"
proof -
  let ?req = "request auth [(''businessId'', B)]
         [(''service_id'', JStr S), (''user_id'', JStr C),
          (''start_time'', JStr ''2024-02-15T10:00:00Z''),
          (''end_time'', JStr ''2024-02-15T11:00:00Z'')]"
  have "body ?req ''start_time'' = JStr ''2024-02-15T10:00:00Z''" by (simp add: request_def)
  from time_field_issue [of "body ?req", OF this scenario_not_time]
  have "isl (CreateAppointmentSchema_safeParse e (body ?req))" by (rule safeParse_field_issue)
  then show ?thesis by (rule createAppointment_parse_failure)
qed

lemma fields_empty_times:
  "CreateAppointmentSchema_fields b = [] \<Longrightarrow>
   \<exists>st en. b ''start_time'' = JStr st \<and> z_iso_time st \<and> b ''end_time'' = JStr en \<and> z_iso_time en"
  by (auto simp: CreateAppointmentSchema_fields_def string_format_def split: json.splits if_splits)

lemma bare_times_not_ordered: "z_iso_time a \<Longrightarrow> \<not> date_gt e a b"
  by (simp add: date_gt_def Date_parse_def)

text \<open>
  No request gets past the schema: a string that passes the time-of-day format of
  \<open>start_time\<close> and \<open>end_time\<close> is an invalid date in the refinement that compares the two,
  and any other string fails the format. So \<open>createAppointment\<close> answers every request
  with 400 and never reaches its lookups or its insert.
\<close>

lemma safeParse_fails: "isl (CreateAppointmentSchema_safeParse e b)"
proof (cases "CreateAppointmentSchema_fields b = []")
  case True
  from fields_empty_times [OF this] obtain st en where
    t: "b ''start_time'' = JStr st" "z_iso_time st" "b ''end_time'' = JStr en" "z_iso_time en"
    by blast
  from t(4) have "\<not> date_gt e en st" by (rule bare_times_not_ordered)
  with t show ?thesis
    by (simp add: CreateAppointmentSchema_safeParse_def Let_def CreateAppointmentSchema_data_def)
next
  case False
  then show ?thesis by (rule safeParse_field_issue)
qed

lemma createAppointment_rejects:
  "status (fst (createAppointment e req d)) = 400 \<and> snd (createAppointment e req d) = d"
  using safeParse_fails by (rule createAppointment_parse_failure)

text \<open>
  A body whose fields all pass their own checks and whose two customer references are not
  both \<open>null\<close> is answered with the message of the time refinement alone.
\<close>

lemma createAppointment_time_order_issue:
  assumes "CreateAppointmentSchema_fields (body req) = []"
      and "body req ''user_id'' \<noteq> JNull \<or> body req ''business_customer_id'' \<noteq> JNull"
  shows "createAppointment e req d =
           (respond 400 (ErrorBody ''End time must be strictly greater than start time.''), d)"
proof -
  from fields_empty_times [OF assms(1)] obtain st en where
    t: "body req ''start_time'' = JStr st" "z_iso_time st" "body req ''end_time'' = JStr en" "z_iso_time en"
    by blast
  from t(4) have "\<not> date_gt e en st" by (rule bare_times_not_ordered)
  with t assms have "CreateAppointmentSchema_safeParse e (body req) =
      Inl [Issue ''End time must be strictly greater than start time.'' True]"
    by (auto simp: CreateAppointmentSchema_safeParse_def Let_def CreateAppointmentSchema_data_def
        aborted_def)
  then show ?thesis by (simp add: createAppointment_def)
qed

lemma valid_ids: "z_uuid id_S" "z_uuid id_C" "z_uuid id_K"
  by (simp_all add: z_uuid_def uuid_class_def is_hex_def id_S_def id_C_def id_K_def)

lemma valid_times: "z_iso_time ''10:00:00''" "z_iso_time ''11:00:00''"
  by (simp_all add: z_iso_time_def iso_seconds_def is_digit_def)

lemma booking_params: "params (booking_request extra) ''businessId'' = id_B"
  by (simp add: booking_request_def request_def)

lemma booking_body:
  "body (booking_request extra) ''service_id'' = JStr id_S"
  "body (booking_request extra) ''start_time'' = JStr ''10:00:00''"
  "body (booking_request extra) ''end_time'' = JStr ''11:00:00''"
  "body (booking_request extra) ''user_id'' =
     (case map_of extra ''user_id'' of Some v \<Rightarrow> v | None \<Rightarrow> JUndefined)"
  "body (booking_request extra) ''staff_user_id'' =
     (case map_of extra ''staff_user_id'' of Some v \<Rightarrow> v | None \<Rightarrow> JUndefined)"
  "body (booking_request extra) ''business_customer_id'' =
     (case map_of extra ''business_customer_id'' of Some v \<Rightarrow> v | None \<Rightarrow> JUndefined)"
  "body (booking_request extra) ''status'' =
     (case map_of extra ''status'' of Some v \<Rightarrow> v | None \<Rightarrow> JUndefined)"
  by (simp_all add: booking_request_def request_def booking_def)

lemma booking_fields:
  "CreateAppointmentSchema_fields (body (booking_request [(''user_id'', JStr id_C), (''status'', JStr ''confirmed'')])) = []"
  "CreateAppointmentSchema_fields (body (booking_request [(''user_id'', JStr id_C), (''business_customer_id'', JStr id_K)])) = []"
  "CreateAppointmentSchema_fields (body (booking_request [(''user_id'', JStr id_C)])) = []"
  "CreateAppointmentSchema_fields (body (booking_request [(''business_customer_id'', JStr id_K)])) = []"
  "CreateAppointmentSchema_fields (body (booking_request [])) = []"
  by (simp_all add: CreateAppointmentSchema_fields_def booking_body string_format_def optional_def
      nullable_def AppointmentStatusSchema_def valid_ids valid_times)


text \<open>
  What the refinement on the two customer references adds to the answer: its message when
  both are \<open>null\<close>, and nothing when both are given or when neither key is sent.
\<close>

lemma customer_reference_issues:
  "createAppointment e (booking_request [(''user_id'', JNull), (''business_customer_id'', JNull)]) d =
     (respond 400
        (ErrorBody ''Either 'user_id' or 'business_customer_id' must be non-null.. End time must be strictly greater than start time.''),
      d)"
  "createAppointment e
     (booking_request [(''user_id'', JStr id_C), (''business_customer_id'', JStr id_K)]) d =
     (respond 400 (ErrorBody ''End time must be strictly greater than start time.''), d)"
  "createAppointment e (booking_request []) d =
     (respond 400 (ErrorBody ''End time must be strictly greater than start time.''), d)"
proof -
  have f: "CreateAppointmentSchema_fields
      (body (booking_request [(''user_id'', JNull), (''business_customer_id'', JNull)])) = []"
    by (simp add: CreateAppointmentSchema_fields_def booking_body string_format_def optional_def
        nullable_def valid_ids valid_times)
  have "\<not> date_gt e ''11:00:00'' ''10:00:00''"
    by (rule bare_times_not_ordered) (rule valid_times)
  with f show "createAppointment e
      (booking_request [(''user_id'', JNull), (''business_customer_id'', JNull)]) d =
     (respond 400
        (ErrorBody ''Either 'user_id' or 'business_customer_id' must be non-null.. End time must be strictly greater than start time.''),
      d)"
    by (simp add: createAppointment_def CreateAppointmentSchema_safeParse_def Let_def
        CreateAppointmentSchema_data_def aborted_def booking_body)
  show "createAppointment e
     (booking_request [(''user_id'', JStr id_C), (''business_customer_id'', JStr id_K)]) d =
     (respond 400 (ErrorBody ''End time must be strictly greater than start time.''), d)"
    by (rule createAppointment_time_order_issue [OF booking_fields(2)]) (simp add: booking_body)
  show "createAppointment e (booking_request []) d =
     (respond 400 (ErrorBody ''End time must be strictly greater than start time.''), d)"
    by (rule createAppointment_time_order_issue [OF booking_fields(5)]) (simp add: booking_body)
qed

text \<open>
  C2 (customer references): the claim has a payload with exactly one of the two references
  succeed. A booking with only \<open>user_id\<close>, or with only \<open>business_customer_id\<close>, is answered
  400 and nothing is written, whatever the store holds.
\<close>

theorem single_reference_rejected:
  "createAppointment e (booking_request [(''user_id'', JStr id_C)]) d =
     (respond 400 (ErrorBody ''End time must be strictly greater than start time.''), d) \<and>
   createAppointment e (booking_request [(''business_customer_id'', JStr id_K)]) d =
     (respond 400 (ErrorBody ''End time must be strictly greater than start time.''), d) \<and>
   status (fst (createAppointment e
      (request auth [(''businessId'', B)]
         [(''service_id'', JStr S), (''business_customer_id'', JStr K),
          (''start_time'', JStr ''2024-02-15T10:00:00Z''),
          (''end_time'', JStr ''2024-02-15T11:00:00Z'')]) d)) = 400 \<and>
   snd (createAppointment e
      (request auth [(''businessId'', B)]
         [(''service_id'', JStr S), (''business_customer_id'', JStr K),
          (''start_time'', JStr ''2024-02-15T10:00:00Z''),
          (''end_time'', JStr ''2024-02-15T11:00:00Z'')]) d) = d"
proof -
  have 1: "createAppointment e (booking_request [(''user_id'', JStr id_C)]) d =
     (respond 400 (ErrorBody ''End time must be strictly greater than start time.''), d)"
    by (rule createAppointment_time_order_issue [OF booking_fields(3)]) (simp add: booking_body)
  have 2: "createAppointment e (booking_request [(''business_customer_id'', JStr id_K)]) d =
     (respond 400 (ErrorBody ''End time must be strictly greater than start time.''), d)"
    by (rule createAppointment_time_order_issue [OF booking_fields(4)]) (simp add: booking_body)
  from 1 2 createAppointment_rejects show ?thesis by blast
qed


end
